theory Spec2Isabelle
  imports Complex_Main
begin

section \<open>Python values used by \<^verbatim>\<open>src/qa/alert.py\<close>\<close>

text \<open>
  The exceptions the script can meet. All of them derive from Python's \<^verbatim>\<open>Exception\<close>,
  so both \<^verbatim>\<open>except Exception\<close> handlers of the script catch each of them.
  \<open>DatabaseError\<close> stands for whatever the warehouse connector raises (connection,
  authentication, SQL execution), with its message.
\<close>

datatype exn =
    KeyError string
  | IndexError
  | AttributeError
  | TypeError
  | ValueError
  | OverflowError
  | DatabaseError string

text \<open>
  \<^verbatim>\<open>datetime.date\<close> and its subclass \<^verbatim>\<open>datetime.datetime\<close>. Only the fields the
  script can observe are kept.
\<close>

record date =
  year :: nat
  month :: nat
  day :: nat

record datetime = date +
  hour :: nat
  minute :: nat
  second :: nat

definition is_leap :: "nat \<Rightarrow> bool" where
  "is_leap y = (if y mod 100 = 0 then y mod 400 = 0 else y mod 4 = 0)"

definition days_in_month :: "nat \<Rightarrow> nat \<Rightarrow> nat" where
  "days_in_month y m =
     (if m = 2 then (if is_leap y then 29 else 28)
      else if m = 4 \<or> m = 6 \<or> m = 9 \<or> m = 11 then 30
      else 31)"

text \<open>
  \<^verbatim>\<open>d - timedelta(days=1)\<close> in the proleptic Gregorian calendar of the \<^verbatim>\<open>datetime\<close>
  module: the time of day is kept, and stepping below 0001-01-01 raises
  \<^verbatim>\<open>OverflowError\<close>.
\<close>

definition minus_one_day :: "'a date_scheme \<Rightarrow> exn + 'a date_scheme" where
  "minus_one_day d =
     (if 1 < day d then Inr (d\<lparr>day := day d - 1\<rparr>)
      else if 1 < month d then
        Inr (d\<lparr>month := month d - 1, day := days_in_month (year d) (month d - 1)\<rparr>)
      else if 1 < year d then Inr (d\<lparr>year := year d - 1, month := 12, day := 31\<rparr>)
      else Inl OverflowError)"

definition digit :: "nat \<Rightarrow> char" where
  "digit n = ''0123456789'' ! (n mod 10)"

definition pad2 :: "nat \<Rightarrow> string" where
  "pad2 n = [digit (n div 10), digit n]"

definition pad4 :: "nat \<Rightarrow> string" where
  "pad4 n = [digit (n div 1000), digit (n div 100), digit (n div 10), digit n]"

text \<open>
  \<^verbatim>\<open>%Y\<close> as the C library of a Linux host prints it: the year in decimal without
  padding, so four digits from the year 1000 on and fewer below. The years of a
  \<^verbatim>\<open>date\<close> are 1 to 9999.
\<close>

definition year_digits :: "nat \<Rightarrow> string" where
  "year_digits n =
     (if n < 10 then [digit n]
      else if n < 100 then [digit (n div 10), digit n]
      else if n < 1000 then [digit (n div 100), digit (n div 10), digit n]
      else pad4 n)"

text \<open>
  \<^verbatim>\<open>d.strftime('%Y-%m-%d')\<close>: the year, then month and day in two digits each.
\<close>

definition strftime :: "'a date_scheme \<Rightarrow> string" where
  "strftime d = year_digits (year d) @ ''-'' @ pad2 (month d) @ ''-'' @ pad2 (day d)"

section \<open>The pandas table\<close>

text \<open>
  A column of the fetched table is either a \<^verbatim>\<open>float64\<close> column or an \<^verbatim>\<open>object\<close> column.
  A finite float is represented by the rational number it denotes exactly; \<open>None\<close> in a
  \<^verbatim>\<open>float64\<close> column is NaN (a warehouse NULL); the two infinities are not
  represented. An \<^verbatim>\<open>object\<close> column holds Python
  objects: \<^verbatim>\<open>datetime.date\<close> values (what the connector delivers for a DATE column),
  strings, or \<^verbatim>\<open>None\<close>.
\<close>

datatype pyobj = PyDate date | PyStr string | PyNone

datatype column = Float64 "rat option list" | Object "pyobj list"

text \<open>
  A \<^verbatim>\<open>DataFrame\<close>: the length of its row index and its columns in order, each with
  its name.
\<close>

record dataframe =
  index_len :: nat
  columns :: "(string \<times> column) list"

fun col_len :: "column \<Rightarrow> nat" where
  "col_len (Float64 fs) = length fs"
| "col_len (Object os) = length os"

text \<open>Every column of a table has one value per row.\<close>

definition well_formed :: "dataframe \<Rightarrow> bool" where
  "well_formed df = list_all (\<lambda>c. col_len (snd c) = index_len df) (columns df)"

text \<open>\<^verbatim>\<open>df.shape[1]\<close>\<close>

definition shape1 :: "dataframe \<Rightarrow> nat" where
  "shape1 df = length (columns df)"

text \<open>\<^verbatim>\<open>df.empty\<close>: true when either axis has length 0.\<close>

definition empty :: "dataframe \<Rightarrow> bool" where
  "empty df = (index_len df = 0 \<or> columns df = [])"

text \<open>
  \<^verbatim>\<open>df[name]\<close>: \<^verbatim>\<open>KeyError\<close> when no column has the name, a \<^verbatim>\<open>Series\<close> when exactly
  one has, and a \<^verbatim>\<open>DataFrame\<close> of the columns so named when several have.
\<close>

datatype selection = Series column | Frame "column list"

definition getitem :: "dataframe \<Rightarrow> string \<Rightarrow> exn + selection" where
  "getitem df name =
     (case map snd (filter (\<lambda>c. fst c = name) (columns df)) of
        [] \<Rightarrow> Inl (KeyError name)
      | c # [] \<Rightarrow> Inr (Series c)
      | c # c' # cs \<Rightarrow> Inr (Frame (c # c' # cs)))"

text \<open>
  \<^verbatim>\<open>Series.unique()\<close>: the distinct values in order of first appearance.
\<close>

fun unique :: "'a list \<Rightarrow> 'a list" where
  "unique [] = []"
| "unique (x # xs) = x # unique (filter (\<lambda>y. y \<noteq> x) xs)"

text \<open>
  \<^verbatim>\<open>s.unique()[0].strftime('%Y-%m-%d')\<close> on a selected column. A \<^verbatim>\<open>DataFrame\<close> has no
  \<^verbatim>\<open>unique\<close>; indexing an empty array raises \<^verbatim>\<open>IndexError\<close>; of the values a column
  can hold only a date has \<^verbatim>\<open>strftime\<close>.
\<close>

fun first_unique_strftime :: "selection \<Rightarrow> exn + string" where
  "first_unique_strftime (Frame cs) = Inl AttributeError"
| "first_unique_strftime (Series (Float64 fs)) =
     (case unique fs of [] \<Rightarrow> Inl IndexError | v # vs \<Rightarrow> Inl AttributeError)"
| "first_unique_strftime (Series (Object os)) =
     (case unique os of
        [] \<Rightarrow> Inl IndexError
      | PyDate d # vs \<Rightarrow> Inr (strftime d)
      | PyStr s # vs \<Rightarrow> Inl AttributeError
      | PyNone # vs \<Rightarrow> Inl AttributeError)"

text \<open>
  \<^verbatim>\<open>Series.max()\<close> and \<^verbatim>\<open>Series.min()\<close> on a \<^verbatim>\<open>float64\<close> column skip NaN, and are NaN
  (\<open>None\<close>) when nothing is left.
\<close>

definition nanmax :: "rat option list \<Rightarrow> rat option" where
  "nanmax fs = (case List.map_filter id fs of [] \<Rightarrow> None | v # vs \<Rightarrow> Some (fold max vs v))"

definition nanmin :: "rat option list \<Rightarrow> rat option" where
  "nanmin fs = (case List.map_filter id fs of [] \<Rightarrow> None | v # vs \<Rightarrow> Some (fold min vs v))"

text \<open>Comparison of a float with a float: false whenever the left side is NaN.\<close>

definition float_gt :: "rat option \<Rightarrow> rat \<Rightarrow> bool" where
  "float_gt x b = (case x of None \<Rightarrow> False | Some v \<Rightarrow> b < v)"

definition float_lt :: "rat option \<Rightarrow> rat \<Rightarrow> bool" where
  "float_lt x b = (case x of None \<Rightarrow> False | Some v \<Rightarrow> v < b)"

text \<open>
  The float literals \<^verbatim>\<open>1.00001\<close> and \<^verbatim>\<open>0.99999\<close> of line 98: the doubles nearest to
  the decimals, as exact fractions (denominators \<open>2^51\<close> and \<open>2^53\<close>).
\<close>

definition upper_bound :: rat where
  "upper_bound = 2251822331683385 / 2251799813685248"

definition lower_bound :: rat where
  "lower_bound = 9007109182748445 / 9007199254740992"

text \<open>
  Lines 95 to 98: \<^verbatim>\<open>max_value\<close>, \<^verbatim>\<open>min_value\<close> and the condition
  \<^verbatim>\<open>max_value > 1.00001 or min_value < 0.99999\<close>, for a selected column. A column
  reduces to floats when it is a \<^verbatim>\<open>float64\<close> column, or an \<^verbatim>\<open>object\<close> column holding
  only \<^verbatim>\<open>None\<close> (both extremes are then NaN). On an \<^verbatim>\<open>object\<close> column that holds a
  date or a string the ordering against a float raises \<^verbatim>\<open>TypeError\<close>. On several
  columns of the name the reductions give a \<^verbatim>\<open>Series\<close> each: the comparison raises
  \<^verbatim>\<open>TypeError\<close> when one of the columns holds a date or a string, and otherwise the
  truth value of the compared \<^verbatim>\<open>Series\<close> is refused with \<^verbatim>\<open>ValueError\<close>.
\<close>

fun reduces_to_float :: "column \<Rightarrow> bool" where
  "reduces_to_float (Float64 fs) = True"
| "reduces_to_float (Object os) = list_all (\<lambda>v. v = PyNone) os"

fun max_min :: "selection \<Rightarrow> exn + rat option \<times> rat option" where
  "max_min (Frame cs) =
     (if list_all reduces_to_float cs then Inl ValueError else Inl TypeError)"
| "max_min (Series (Float64 fs)) = Inr (nanmax fs, nanmin fs)"
| "max_min (Series (Object os)) =
     (if reduces_to_float (Object os) then Inr (None, None) else Inl TypeError)"

definition out_of_range :: "rat option \<Rightarrow> rat option \<Rightarrow> bool" where
  "out_of_range max_value min_value =
     (float_gt max_value upper_bound \<or> float_lt min_value lower_bound)"

section \<open>The validator: \<^verbatim>\<open>df_check\<close> (lines 68 to 110)\<close>

text \<open>
  An issue is the formatted message of lines 87, 92 and 100 with the values it embeds:
  \<open>DateIssue yesterday_str unique_values\<close>, \<open>ColumnCountIssue (df.shape[1])\<close>,
  \<open>RatioIssue min_value max_value\<close>.
\<close>

datatype issue =
    DateIssue string string
  | ColumnCountIssue nat
  | RatioIssue "rat option" "rat option"

text \<open>The lines the script prints, each with the values it embeds.\<close>

datatype line =
    Connecting              \<comment> \<open>\<^verbatim>\<open>Connecting to Snowflake and retrieving data...\<close>\<close>
  | FetchError exn          \<comment> \<open>\<^verbatim>\<open>Error connecting to Snowflake or executing query: {e}\<close>\<close>
  | NoData                  \<comment> \<open>\<^verbatim>\<open>No data retrieved from Snowflake\<close>\<close>
  | Performing              \<comment> \<open>\<^verbatim>\<open>Performing validation checks...\<close>\<close>
  | ChecksFailed            \<comment> \<open>\<^verbatim>\<open>Validation checks failed:\<close>\<close>
  | IssueLine issue         \<comment> \<open>\<^verbatim>\<open>- {issue}\<close>\<close>
  | AllPassed               \<comment> \<open>\<^verbatim>\<open>All validation checks passed\<close>\<close>
  | Alert                   \<comment> \<open>\<^verbatim>\<open>Alert: One or more validation checks failed\<close>\<close>
  | Success                 \<comment> \<open>\<^verbatim>\<open>Success: All validation checks passed\<close>\<close>
  | UnexpectedError exn     \<comment> \<open>\<^verbatim>\<open>Unexpected error: {e}\<close>\<close>

text \<open>
  What a completed call of \<^verbatim>\<open>df_check\<close> leaves: the returned \<open>flag\<close>, the local list
  \<open>issues\<close> as it stands at the end, and the lines printed.
\<close>

record verdict =
  flag :: bool
  issues :: "issue list"
  printed :: "line list"

text \<open>Line 82, with the clock's \<^verbatim>\<open>datetime.now()\<close> as the argument.\<close>

definition yesterday_str :: "datetime \<Rightarrow> exn + string" where
  "yesterday_str now =
     (case minus_one_day now of Inl e \<Rightarrow> Inl e | Inr y \<Rightarrow> Inr (strftime y))"

text \<open>Line 83.\<close>

definition unique_values :: "dataframe \<Rightarrow> exn + string" where
  "unique_values df =
     (case getitem df ''DATE'' of Inl e \<Rightarrow> Inl e | Inr s \<Rightarrow> first_unique_strftime s)"

text \<open>Lines 95 and 96: the pair \<open>(max_value, min_value)\<close>.\<close>

definition ratio_max_min :: "dataframe \<Rightarrow> exn + rat option \<times> rat option" where
  "ratio_max_min df =
     (case getitem df ''ROW_EVENT_RATIO'' of Inl e \<Rightarrow> Inl e | Inr s \<Rightarrow> max_min s)"

text \<open>
  The function in the order of the source. An exception leaves it before anything is
  printed, since the only \<^verbatim>\<open>print\<close> calls are at its end.
\<close>

definition df_check :: "datetime \<Rightarrow> dataframe \<Rightarrow> exn + verdict" where
  "df_check now df =
     (case yesterday_str now of
        Inl e \<Rightarrow> Inl e
      | Inr y \<Rightarrow>
         (case unique_values df of
            Inl e \<Rightarrow> Inl e
          | Inr u \<Rightarrow>
             (let flag0 = False;
                  issues0 = [];
                  (flag1, issues1) =
                    (if u \<noteq> y then (True, issues0 @ [DateIssue y u])
                     else (flag0, issues0));
                  (flag2, issues2) =
                    (if shape1 df \<noteq> 16
                     then (True, issues1 @ [ColumnCountIssue (shape1 df)])
                     else (flag1, issues1))
              in (case ratio_max_min df of
                    Inl e \<Rightarrow> Inl e
                  | Inr (max_value, min_value) \<Rightarrow>
                     (let (flag3, issues3) =
                            (if out_of_range max_value min_value
                             then (True, issues2 @ [RatioIssue min_value max_value])
                             else (flag2, issues2))
                      in Inr \<lparr>flag = flag3, issues = issues3,
                              printed =
                                (if issues3 \<noteq> [] then ChecksFailed # map IssueLine issues3
                                 else [AllPassed])\<rparr>)))))"

section \<open>The fetcher: \<^verbatim>\<open>get_snowflake_data\<close> (lines 31 to 66)\<close>

text \<open>
  The warehouse as the run meets it: for each call of the connector in the order of the
  source, the exception it raises (\<open>None\<close> when it returns), and the table
  \<^verbatim>\<open>fetch_pandas_all\<close> delivers.
\<close>

record warehouse =
  connect :: "exn option"
  cursor :: "exn option"
  use_role :: "exn option"
  use_warehouse :: "exn option"
  query :: "exn option"
  fetch_pandas_all :: "exn + dataframe"
  cur_close :: "exn option"
  con_close :: "exn option"

text \<open>
  The resources of the run: is the connection open, is the cursor open. In
  \<open>get_snowflake_data\<close> below, \<open>s0\<close> is the state before line 43, \<open>s1\<close> after
  \<^verbatim>\<open>connect\<close> returned, \<open>s2\<close> after \<^verbatim>\<open>con.cursor()\<close> returned, \<open>s3\<close> after
  \<^verbatim>\<open>cur.close()\<close> and \<open>s4\<close> after \<^verbatim>\<open>con.close()\<close>; a call that raises changes nothing.
\<close>

record session =
  con_open :: bool
  cur_open :: bool

text \<open>
  The function either returns the table or leaves through \<^verbatim>\<open>sys.exit(1)\<close>, which raises
  \<^verbatim>\<open>SystemExit\<close>: not an \<^verbatim>\<open>Exception\<close>, so no handler of the script catches it.
\<close>

datatype fetched = Returned dataframe | SystemExit int

record fetch_result =
  outcome :: fetched
  fetch_printed :: "line list"
  after :: session

text \<open>The handler of lines 64 to 66, entered with the resources as they are.\<close>

definition on_exception :: "exn \<Rightarrow> session \<Rightarrow> fetch_result" where
  "on_exception e s = \<lparr>outcome = SystemExit 1, fetch_printed = [FetchError e], after = s\<rparr>"

definition get_snowflake_data :: "warehouse \<Rightarrow> fetch_result" where
  "get_snowflake_data wh =
     (let s0 = \<lparr>con_open = False, cur_open = False\<rparr>;
          s1 = s0\<lparr>con_open := True\<rparr>;
          s2 = s1\<lparr>cur_open := True\<rparr>;
          s3 = s2\<lparr>cur_open := False\<rparr>;
          s4 = s3\<lparr>con_open := False\<rparr>
      in (case connect wh of Some e \<Rightarrow> on_exception e s0 | None \<Rightarrow>
         (case cursor wh of Some e \<Rightarrow> on_exception e s1 | None \<Rightarrow>
         (case use_role wh of Some e \<Rightarrow> on_exception e s2 | None \<Rightarrow>
         (case use_warehouse wh of Some e \<Rightarrow> on_exception e s2 | None \<Rightarrow>
         (case query wh of Some e \<Rightarrow> on_exception e s2 | None \<Rightarrow>
         (case fetch_pandas_all wh of Inl e \<Rightarrow> on_exception e s2 | Inr df \<Rightarrow>
         (case cur_close wh of Some e \<Rightarrow> on_exception e s2 | None \<Rightarrow>
         (case con_close wh of Some e \<Rightarrow> on_exception e s3 | None \<Rightarrow>
            \<lparr>outcome = Returned df, fetch_printed = [], after = s4\<rparr>)))))))))"

section \<open>The run: \<^verbatim>\<open>main\<close> and the exit of the process (lines 112 to 145)\<close>

record run =
  stdout :: "line list"
  exit_code :: int
  resources :: session

text \<open>
  \<^verbatim>\<open>sys.exit(main())\<close>. A \<^verbatim>\<open>SystemExit\<close> from the fetcher passes the handler of line 139
  and ends the process with its code.
\<close>

definition main :: "warehouse \<Rightarrow> datetime \<Rightarrow> run" where
  "main wh now =
     (let r = get_snowflake_data wh;
          out = Connecting # fetch_printed r
      in case outcome r of
           SystemExit c \<Rightarrow> \<lparr>stdout = out, exit_code = c, resources = after r\<rparr>
         | Returned df \<Rightarrow>
             if empty df then \<lparr>stdout = out @ [NoData], exit_code = 1, resources = after r\<rparr>
             else
               (case df_check now df of
                  Inl e \<Rightarrow>
                    \<lparr>stdout = out @ [Performing, UnexpectedError e], exit_code = 1,
                     resources = after r\<rparr>
                | Inr v \<Rightarrow>
                    if flag v then
                      \<lparr>stdout = out @ [Performing] @ printed v @ [Alert], exit_code = 1,
                       resources = after r\<rparr>
                    else
                      \<lparr>stdout = out @ [Performing] @ printed v @ [Success], exit_code = 0,
                       resources = after r\<rparr>))"

section \<open>Notions used to state the properties\<close>

text \<open>
  The verdict that the three checks add up to when each is taken alone, as a function
  of what lines 82 to 96 read: \<open>yesterday_str\<close>, \<open>unique_values\<close>, \<open>df.shape[1]\<close>,
  \<open>max_value\<close> and \<open>min_value\<close>.
\<close>

definition verdict_of :: "string \<Rightarrow> string \<Rightarrow> nat \<Rightarrow> rat option \<Rightarrow> rat option \<Rightarrow> verdict" where
  "verdict_of y u n mx mn =
     (let found = (if u \<noteq> y then [DateIssue y u] else []) @
                  (if n \<noteq> 16 then [ColumnCountIssue n] else []) @
                  (if out_of_range mx mn then [RatioIssue mn mx] else [])
      in \<lparr>flag = (found \<noteq> []), issues = found,
          printed = (if found \<noteq> [] then ChecksFailed # map IssueLine found else [AllPassed])\<rparr>)"

text \<open>The first value of a column is date-like: it is there and it is a date.\<close>

fun first_is_date :: "column \<Rightarrow> bool" where
  "first_is_date (Object (PyDate d # os)) = True"
| "first_is_date c = False"

section \<open>Concrete runs\<close>

text \<open>A clock on the morning of 2024-03-01 and one in the evening of the same day.\<close>

definition now0 :: datetime where
  "now0 = \<lparr>year = 2024, month = 3, day = 1, hour = 9, minute = 30, second = 0\<rparr>"

definition now1 :: datetime where
  "now1 = \<lparr>year = 2024, month = 3, day = 1, hour = 22, minute = 5, second = 41\<rparr>"

definition yesterday0 :: datetime where
  "yesterday0 = \<lparr>year = 2024, month = 2, day = 29, hour = 9, minute = 30, second = 0\<rparr>"

definition yesterday1 :: datetime where
  "yesterday1 = \<lparr>year = 2024, month = 2, day = 29, hour = 22, minute = 5, second = 41\<rparr>"

definition feb29 :: date where
  "feb29 = \<lparr>year = 2024, month = 2, day = 29\<rparr>"

definition feb27 :: date where
  "feb27 = \<lparr>year = 2024, month = 2, day = 27\<rparr>"

definition filler :: column where
  "filler = Object [PyStr ''web'', PyStr ''app'']"

definition fillers13 :: "(string \<times> column) list" where
  "fillers13 =
     [(''C03'', filler), (''C04'', filler), (''C05'', filler), (''C06'', filler),
      (''C07'', filler), (''C08'', filler), (''C09'', filler), (''C10'', filler),
      (''C11'', filler), (''C12'', filler), (''C13'', filler), (''C14'', filler),
      (''C15'', filler)]"

text \<open>The doubles written \<^verbatim>\<open>1.000005\<close> and \<^verbatim>\<open>1.00002\<close> (denominator \<open>2^52\<close>).\<close>

definition float_1_000005 :: rat where
  "float_1_000005 = 4503622145368633 / 4503599627370496"

definition float_1_00002 :: rat where
  "float_1_00002 = 4503689699363043 / 4503599627370496"

text \<open>The double written \<^verbatim>\<open>0.99998\<close> (denominator \<open>2^53\<close>).\<close>

definition float_0_99998 :: rat where
  "float_0_99998 = 9007019110755897 / 9007199254740992"

text \<open>A table of two rows and 16 columns that passes every check at \<open>now0\<close>.\<close>

definition df_good :: dataframe where
  "df_good = \<lparr>index_len = 2, columns =
     (''DATE'', Object [PyDate feb29, PyDate feb29]) #
     (''ROW_EVENT_RATIO'', Float64 [Some 1, Some 1]) #
     fillers13 @ [(''C16'', filler)]\<rparr>"

text \<open>The same with a second date in the second row.\<close>

definition df_two_dates :: dataframe where
  "df_two_dates = \<lparr>index_len = 2, columns =
     (''DATE'', Object [PyDate feb29, PyDate feb27]) #
     (''ROW_EVENT_RATIO'', Float64 [Some 1, Some 1]) #
     fillers13 @ [(''C16'', filler)]\<rparr>"

text \<open>A table of 15 columns, dated two days too early, with a ratio of \<^verbatim>\<open>1.00002\<close>.\<close>

definition df_bad :: dataframe where
  "df_bad = \<lparr>index_len = 2, columns =
     (''DATE'', Object [PyDate feb27, PyDate feb27]) #
     (''ROW_EVENT_RATIO'', Float64 [Some 1, Some float_1_00002]) #
     fillers13\<rparr>"

text \<open>A table without the ratio column, and the result of a query that found no row.\<close>

definition df_no_ratio :: dataframe where
  "df_no_ratio = \<lparr>index_len = 2, columns =
     (''DATE'', Object [PyDate feb29, PyDate feb29]) # fillers13\<rparr>"

text \<open>
  Two tables of 15 columns: one dated two days too early and without the ratio column,
  one without the \<open>DATE\<close> column and with a ratio of \<^verbatim>\<open>1.00002\<close>.
\<close>

definition df_late_no_ratio :: dataframe where
  "df_late_no_ratio = \<lparr>index_len = 2, columns =
     (''DATE'', Object [PyDate feb27, PyDate feb27]) # fillers13 @ [(''C16'', filler)]\<rparr>"

definition df_no_date :: dataframe where
  "df_no_date = \<lparr>index_len = 2, columns =
     (''ROW_EVENT_RATIO'', Float64 [Some 1, Some float_1_00002]) #
     fillers13 @ [(''C16'', filler)]\<rparr>"

definition df_no_rows :: dataframe where
  "df_no_rows = \<lparr>index_len = 0, columns =
     [(''DATE'', Object []), (''ROW_EVENT_RATIO'', Float64 [])]\<rparr>"

text \<open>A warehouse that answers every call and delivers the given table.\<close>

definition delivering :: "dataframe \<Rightarrow> warehouse" where
  "delivering df =
     \<lparr>connect = None, cursor = None, use_role = None, use_warehouse = None, query = None,
      fetch_pandas_all = Inr df, cur_close = None, con_close = None\<rparr>"

text \<open>A warehouse that accepts the session and rejects the data query of line 53.\<close>

definition wh_query_error :: warehouse where
  "wh_query_error =
     (delivering df_good)\<lparr>query := Some (DatabaseError ''SQL compilation error'')\<rparr>"

text \<open>A warehouse that refuses the connection of line 43.\<close>

definition wh_connect_error :: warehouse where
  "wh_connect_error =
     (delivering df_good)\<lparr>connect := Some (DatabaseError ''Failed to connect'')\<rparr>"

text \<open>What the validator finds in \<open>df_bad\<close> at \<open>now0\<close>.\<close>

definition issues_bad :: "issue list" where
  "issues_bad =
     [DateIssue ''2024-02-29'' ''2024-02-27'', ColumnCountIssue 15,
      RatioIssue (Some 1) (Some float_1_00002)]"

definition verdict_bad :: verdict where
  "verdict_bad =
     \<lparr>flag = True, issues = issues_bad, printed = ChecksFailed # map IssueLine issues_bad\<rparr>"

definition verdict_pass :: verdict where
  "verdict_pass = \<lparr>flag = False, issues = [], printed = [AllPassed]\<rparr>"

section \<open>Auxiliary facts\<close>

lemma fold_max_gt: "(b::rat) < fold max vs v \<longleftrightarrow> b < v \<or> (\<exists>x\<in>set vs. b < x)"
  by (induction vs arbitrary: v) (auto simp: less_max_iff_disj)

lemma fold_min_lt: "fold min vs v < (b::rat) \<longleftrightarrow> v < b \<or> (\<exists>x\<in>set vs. x < b)"
  by (induction vs arbitrary: v) (auto simp: min_less_iff_disj)

lemma fold_max_Max: "fold max vs (v::rat) = Max (insert v (set vs))"
  using Max.set_eq_fold [of v vs] by simp

lemma fold_min_Min: "fold min vs (v::rat) = Min (insert v (set vs))"
  using Min.set_eq_fold [of v vs] by simp

lemma set_map_filter_id: "set (List.map_filter id fs) = {x. Some x \<in> set fs}"
  by (induction fs) (auto split: option.splits)

lemma nanmax_Max:
  "nanmax fs = (if {x. Some x \<in> set fs} = {} then None else Some (Max {x. Some x \<in> set fs}))"
proof (cases "List.map_filter id fs")
  case Nil
  then have "{x. Some x \<in> set fs} = {}" using set_map_filter_id [of fs] by simp
  with Nil show ?thesis by (simp add: nanmax_def)
next
  case (Cons v vs)
  then have "{x. Some x \<in> set fs} = insert v (set vs)" using set_map_filter_id [of fs] by simp
  with Cons show ?thesis by (simp add: nanmax_def fold_max_Max)
qed

lemma nanmin_Min:
  "nanmin fs = (if {x. Some x \<in> set fs} = {} then None else Some (Min {x. Some x \<in> set fs}))"
proof (cases "List.map_filter id fs")
  case Nil
  then have "{x. Some x \<in> set fs} = {}" using set_map_filter_id [of fs] by simp
  with Nil show ?thesis by (simp add: nanmin_def)
next
  case (Cons v vs)
  then have "{x. Some x \<in> set fs} = insert v (set vs)" using set_map_filter_id [of fs] by simp
  with Cons show ?thesis by (simp add: nanmin_def fold_min_Min)
qed

lemma bounds_near_decimals:
  "\<bar>upper_bound - 1.00001\<bar> < 1 / 2 ^ 52 \<and> \<bar>lower_bound - 0.99999\<bar> < 1 / 2 ^ 53"
  by (simp add: upper_bound_def lower_bound_def)

lemma out_of_range_one: "\<not> out_of_range (Some 1) (Some 1)"
  by (simp add: out_of_range_def float_gt_def float_lt_def upper_bound_def lower_bound_def)

lemma fetch_returned:
  "outcome (get_snowflake_data wh) = Returned df \<Longrightarrow>
   fetch_printed (get_snowflake_data wh) = [] \<and>
   after (get_snowflake_data wh) = \<lparr>con_open = False, cur_open = False\<rparr>"
  by (simp add: get_snowflake_data_def on_exception_def Let_def split: option.splits sum.splits)

lemma fetch_returned_iff:
  "outcome (get_snowflake_data wh) = Returned df \<longleftrightarrow>
     connect wh = None \<and> cursor wh = None \<and> use_role wh = None \<and>
     use_warehouse wh = None \<and> query wh = None \<and> fetch_pandas_all wh = Inr df \<and>
     cur_close wh = None \<and> con_close wh = None"
  by (simp add: get_snowflake_data_def on_exception_def Let_def
      split: option.splits sum.splits)

lemma fetch_exit: "outcome (get_snowflake_data wh) = SystemExit c \<Longrightarrow> c = 1"
  by (simp add: get_snowflake_data_def on_exception_def Let_def split: option.splits sum.splits)

lemma fetch_delivering:
  "get_snowflake_data (delivering df) =
     \<lparr>outcome = Returned df, fetch_printed = [],
      after = \<lparr>con_open = False, cur_open = False\<rparr>\<rparr>"
  by (simp add: get_snowflake_data_def delivering_def)

lemma df_check_returns:
  assumes "yesterday_str now = Inr y" and "unique_values df = Inr u"
    and "ratio_max_min df = Inr (mx, mn)"
  shows "df_check now df = Inr (verdict_of y u (shape1 df) mx mn)"
  using assms by (simp add: df_check_def verdict_of_def)

lemma df_check_returned:
  assumes "df_check now df = Inr v"
  obtains y u mx mn where "yesterday_str now = Inr y" and "unique_values df = Inr u"
    and "ratio_max_min df = Inr (mx, mn)" and "v = verdict_of y u (shape1 df) mx mn"
proof -
  from assms obtain y where y: "yesterday_str now = Inr y"
    by (cases "yesterday_str now") (simp_all add: df_check_def)
  from assms y obtain u where u: "unique_values df = Inr u"
    by (cases "unique_values df") (simp_all add: df_check_def)
  from assms y u obtain mx mn where r: "ratio_max_min df = Inr (mx, mn)"
    by (cases "ratio_max_min df") (auto simp add: df_check_def Let_def split: if_splits)
  from df_check_returns [OF y u r] assms have "v = verdict_of y u (shape1 df) mx mn" by simp
  with y u r that show thesis by blast
qed

lemma getitem_KeyError:
  "name \<notin> fst ` set (columns df) \<Longrightarrow> getitem df name = Inl (KeyError name)"
proof -
  assume "name \<notin> fst ` set (columns df)"
  then have "filter (\<lambda>c. fst c = name) (columns df) = []"
    by (auto simp: filter_empty_conv)
  then show ?thesis by (simp add: getitem_def)
qed


lemma verdict_of_simps:
  "issues (verdict_of y u n mx mn) =
     (if u \<noteq> y then [DateIssue y u] else []) @
     (if n \<noteq> 16 then [ColumnCountIssue n] else []) @
     (if out_of_range mx mn then [RatioIssue mn mx] else [])"
  "flag (verdict_of y u n mx mn) = (u \<noteq> y \<or> n \<noteq> 16 \<or> out_of_range mx mn)"
  by (simp_all add: verdict_of_def Let_def)

lemma main_returned:
  assumes "outcome (get_snowflake_data wh) = Returned df"
  shows "main wh now =
     (let s = \<lparr>con_open = False, cur_open = False\<rparr> in
      if empty df then \<lparr>stdout = [Connecting, NoData], exit_code = 1, resources = s\<rparr>
      else (case df_check now df of
              Inl e \<Rightarrow> \<lparr>stdout = [Connecting, Performing, UnexpectedError e], exit_code = 1,
                        resources = s\<rparr>
            | Inr v \<Rightarrow>
                if flag v
                then \<lparr>stdout = [Connecting, Performing] @ printed v @ [Alert], exit_code = 1,
                      resources = s\<rparr>
                else \<lparr>stdout = [Connecting, Performing] @ printed v @ [Success],
                      exit_code = 0, resources = s\<rparr>))"
  using assms fetch_returned [OF assms]
  by (simp add: main_def Let_def split: sum.splits)

lemma main_exit:
  assumes "outcome (get_snowflake_data wh) = SystemExit c"
  shows "exit_code (main wh now) = 1"
  using assms fetch_exit [OF assms] by (simp add: main_def Let_def)

lemma unique_values_first:
  "getitem df ''DATE'' = Inr (Series (Object (PyDate d # rest))) \<Longrightarrow>
   unique_values df = Inr (strftime d)"
  by (simp add: unique_values_def)

lemma ratio_max_min_float:
  "getitem df ''ROW_EVENT_RATIO'' = Inr (Series (Float64 fs)) \<Longrightarrow>
   ratio_max_min df = Inr (nanmax fs, nanmin fs)"
  by (simp add: ratio_max_min_def)

lemma not_date_raises:
  "\<not> first_is_date c \<Longrightarrow> \<exists>e. first_unique_strftime (Series c) = Inl e"
  by (cases c rule: first_is_date.cases) (auto split: list.splits pyobj.splits)

section \<open>The concrete runs, evaluated\<close>

lemma minus_one_day_now0: "minus_one_day now0 = Inr yesterday0"
  by (simp add: minus_one_day_def now0_def yesterday0_def days_in_month_def is_leap_def)

lemma minus_one_day_now1: "minus_one_day now1 = Inr yesterday1"
  by (simp add: minus_one_day_def now1_def yesterday1_def days_in_month_def is_leap_def)

lemma strftime_yesterday1: "strftime yesterday1 = ''2024-02-29''"
  by (simp add: strftime_def yesterday1_def year_digits_def pad4_def pad2_def digit_def)

lemma strftime_yesterday0: "strftime yesterday0 = ''2024-02-29''"
  by (simp add: strftime_def yesterday0_def year_digits_def pad4_def pad2_def digit_def)

lemma strftime_feb29: "strftime feb29 = ''2024-02-29''"
  by (simp add: strftime_def feb29_def year_digits_def pad4_def pad2_def digit_def)

lemma strftime_feb27: "strftime feb27 = ''2024-02-27''"
  by (simp add: strftime_def feb27_def year_digits_def pad4_def pad2_def digit_def)

lemma yesterday_str_now0: "yesterday_str now0 = Inr ''2024-02-29''"
  by (simp add: yesterday_str_def minus_one_day_now0 strftime_yesterday0)

lemma yesterday_str_now1: "yesterday_str now1 = Inr ''2024-02-29''"
  by (simp add: yesterday_str_def minus_one_day_now1 strftime_yesterday1)

lemma getitem_good_DATE:
  "getitem df_good ''DATE'' = Inr (Series (Object (PyDate feb29 # [PyDate feb29])))"
  by (simp add: getitem_def df_good_def fillers13_def)

lemma getitem_good_RATIO:
  "getitem df_good ''ROW_EVENT_RATIO'' = Inr (Series (Float64 [Some 1, Some 1]))"
  by (simp add: getitem_def df_good_def fillers13_def)

lemma getitem_two_dates_DATE:
  "getitem df_two_dates ''DATE'' = Inr (Series (Object (PyDate feb29 # [PyDate feb27])))"
  by (simp add: getitem_def df_two_dates_def fillers13_def)

lemma getitem_two_dates_RATIO:
  "getitem df_two_dates ''ROW_EVENT_RATIO'' = Inr (Series (Float64 [Some 1, Some 1]))"
  by (simp add: getitem_def df_two_dates_def fillers13_def)

lemma getitem_bad_DATE:
  "getitem df_bad ''DATE'' = Inr (Series (Object (PyDate feb27 # [PyDate feb27])))"
  by (simp add: getitem_def df_bad_def fillers13_def)

lemma getitem_bad_RATIO:
  "getitem df_bad ''ROW_EVENT_RATIO'' = Inr (Series (Float64 [Some 1, Some float_1_00002]))"
  by (simp add: getitem_def df_bad_def fillers13_def)

lemma nanmax_ones: "nanmax [Some 1, Some 1] = Some 1"
  by (simp add: nanmax_def)

lemma nanmin_ones: "nanmin [Some 1, Some 1] = Some 1"
  by (simp add: nanmin_def)

lemma nanmax_bad: "nanmax [Some 1, Some float_1_00002] = Some float_1_00002"
  by (simp add: nanmax_def float_1_00002_def)

lemma nanmin_bad: "nanmin [Some 1, Some float_1_00002] = Some 1"
  by (simp add: nanmin_def float_1_00002_def)

lemma out_of_range_bad: "out_of_range (Some float_1_00002) (Some 1)"
  by (simp add: out_of_range_def float_gt_def float_lt_def upper_bound_def lower_bound_def
      float_1_00002_def)

lemma shape1_good: "shape1 df_good = 16"
  by (simp add: shape1_def df_good_def fillers13_def)

lemma shape1_two_dates: "shape1 df_two_dates = 16"
  by (simp add: shape1_def df_two_dates_def fillers13_def)

lemma shape1_bad: "shape1 df_bad = 15"
  by (simp add: shape1_def df_bad_def fillers13_def)

lemma unique_values_good: "unique_values df_good = Inr ''2024-02-29''"
  by (simp add: unique_values_first [OF getitem_good_DATE] strftime_feb29)

lemma unique_values_two_dates: "unique_values df_two_dates = Inr ''2024-02-29''"
  by (simp add: unique_values_first [OF getitem_two_dates_DATE] strftime_feb29)

lemma unique_values_bad: "unique_values df_bad = Inr ''2024-02-27''"
  by (simp add: unique_values_first [OF getitem_bad_DATE] strftime_feb27)

lemma ratio_max_min_good: "ratio_max_min df_good = Inr (Some 1, Some 1)"
  by (simp add: ratio_max_min_float [OF getitem_good_RATIO] nanmax_ones nanmin_ones)

lemma ratio_max_min_two_dates: "ratio_max_min df_two_dates = Inr (Some 1, Some 1)"
  by (simp add: ratio_max_min_float [OF getitem_two_dates_RATIO] nanmax_ones nanmin_ones)

lemma ratio_max_min_bad: "ratio_max_min df_bad = Inr (Some float_1_00002, Some 1)"
  by (simp add: ratio_max_min_float [OF getitem_bad_RATIO] nanmax_bad nanmin_bad)

lemma df_check_good: "df_check now0 df_good = Inr verdict_pass"
  using df_check_returns [OF yesterday_str_now0 unique_values_good ratio_max_min_good]
    out_of_range_one
  by (simp add: verdict_of_def verdict_pass_def shape1_good)

lemma df_check_two_dates: "df_check now1 df_two_dates = Inr verdict_pass"
  using df_check_returns [OF yesterday_str_now1 unique_values_two_dates ratio_max_min_two_dates]
    out_of_range_one
  by (simp add: verdict_of_def verdict_pass_def shape1_two_dates)

lemma df_check_bad: "df_check now0 df_bad = Inr verdict_bad"
  using df_check_returns [OF yesterday_str_now0 unique_values_bad ratio_max_min_bad]
    out_of_range_bad
  by (simp add: verdict_of_def verdict_bad_def issues_bad_def shape1_bad)

lemma examples_well_formed:
  "well_formed df_good \<and> well_formed df_two_dates \<and> well_formed df_bad \<and>
   well_formed df_no_ratio \<and> well_formed df_no_rows"
  by (simp add: well_formed_def df_good_def df_two_dates_def df_bad_def df_no_ratio_def
      df_no_rows_def fillers13_def filler_def)

lemma more_examples_well_formed: "well_formed df_late_no_ratio \<and> well_formed df_no_date"
  by (simp add: well_formed_def df_late_no_ratio_def df_no_date_def fillers13_def filler_def)

lemma getitem_no_date_RATIO:
  "getitem df_no_date ''ROW_EVENT_RATIO'' =
     Inr (Series (Float64 [Some 1, Some float_1_00002]))"
  by (simp add: getitem_def df_no_date_def fillers13_def)

lemma no_date_column: "''DATE'' \<notin> fst ` set (columns df_no_date)"
  by (simp add: df_no_date_def fillers13_def)

lemma unique_values_no_date: "unique_values df_no_date = Inl (KeyError ''DATE'')"
  by (simp add: unique_values_def getitem_KeyError [OF no_date_column])

lemma df_check_no_date: "df_check now0 df_no_date = Inl (KeyError ''DATE'')"
  by (simp add: df_check_def yesterday_str_now0 unique_values_no_date)

lemma not_empty_no_date: "\<not> empty df_no_date"
  by (simp add: empty_def df_no_date_def)

lemma length_no_date: "length (columns df_no_date) = 15"
  by (simp add: df_no_date_def fillers13_def)

lemma getitem_late_DATE:
  "getitem df_late_no_ratio ''DATE'' = Inr (Series (Object (PyDate feb27 # [PyDate feb27])))"
  by (simp add: getitem_def df_late_no_ratio_def fillers13_def)

lemma unique_values_late: "unique_values df_late_no_ratio = Inr ''2024-02-27''"
  by (simp add: unique_values_first [OF getitem_late_DATE] strftime_feb27)

lemma late_no_ratio_column: "''ROW_EVENT_RATIO'' \<notin> fst ` set (columns df_late_no_ratio)"
  by (simp add: df_late_no_ratio_def fillers13_def)

lemma ratio_max_min_late:
  "ratio_max_min df_late_no_ratio = Inl (KeyError ''ROW_EVENT_RATIO'')"
  by (simp add: ratio_max_min_def getitem_KeyError [OF late_no_ratio_column])

lemma df_check_late: "df_check now0 df_late_no_ratio = Inl (KeyError ''ROW_EVENT_RATIO'')"
  by (simp add: df_check_def yesterday_str_now0 unique_values_late ratio_max_min_late)

lemma not_empty_late: "\<not> empty df_late_no_ratio"
  by (simp add: empty_def df_late_no_ratio_def)

lemma shape1_late: "shape1 df_late_no_ratio = 15"
  by (simp add: shape1_def df_late_no_ratio_def fillers13_def)

lemma main_raised:
  assumes "\<not> empty df" and "df_check now df = Inl e"
  shows "main (delivering df) now =
     \<lparr>stdout = [Connecting, Performing, UnexpectedError e], exit_code = 1,
      resources = \<lparr>con_open = False, cur_open = False\<rparr>\<rparr>"
  using assms by (simp add: main_def fetch_delivering)

lemma outcome_delivering: "outcome (get_snowflake_data (delivering df)) = Returned df"
  by (simp add: fetch_delivering)

lemma not_empty_good: "\<not> empty df_good"
  by (simp add: empty_def df_good_def)

lemma not_empty_no_ratio: "\<not> empty df_no_ratio"
  by (simp add: empty_def df_no_ratio_def)

lemma no_ratio_column: "''ROW_EVENT_RATIO'' \<notin> fst ` set (columns df_no_ratio)"
  by (simp add: df_no_ratio_def fillers13_def)

section \<open>The properties\<close>

subsection \<open>C1: the exit code\<close>

text \<open>
  C1. The process exits with 0 exactly when the fetch succeeds (every call of the
  connector returns: connecting, opening the cursor, the two \<^verbatim>\<open>USE\<close> statements, the
  query, fetching the table, closing cursor and connection), the fetched table is not
  empty, and the three checks pass on it: the first date reads as yesterday, there are
  16 columns, and the ratio is within its bounds. In every other case (any call of the
  connector raising, an empty table, a failed check, an exception in the validator) it
  exits with 1.
\<close>

theorem exit_code_zero_iff:
  "(exit_code (main wh now) = 0 \<longleftrightarrow>
     connect wh = None \<and> cursor wh = None \<and> use_role wh = None \<and>
     use_warehouse wh = None \<and> query wh = None \<and>
     cur_close wh = None \<and> con_close wh = None \<and>
     (\<exists>df y u mx mn.
        fetch_pandas_all wh = Inr df \<and> \<not> empty df \<and>
        yesterday_str now = Inr y \<and> unique_values df = Inr u \<and>
        ratio_max_min df = Inr (mx, mn) \<and>
        u = y \<and> shape1 df = 16 \<and> \<not> out_of_range mx mn)) \<and>
   (exit_code (main wh now) = 0 \<or> exit_code (main wh now) = 1)"
proof (cases "outcome (get_snowflake_data wh)")
  case (SystemExit c)
  then have "\<And>df. outcome (get_snowflake_data wh) \<noteq> Returned df" by simp
  then have "\<not> (connect wh = None \<and> cursor wh = None \<and> use_role wh = None \<and>
     use_warehouse wh = None \<and> query wh = None \<and>
     cur_close wh = None \<and> con_close wh = None \<and> (\<exists>df. fetch_pandas_all wh = Inr df))"
    unfolding fetch_returned_iff by blast
  with main_exit [OF SystemExit, of now] show ?thesis by auto
next
  case (Returned df)
  note m = main_returned [OF Returned, of now]
  from Returned have w: "connect wh = None" "cursor wh = None" "use_role wh = None"
      "use_warehouse wh = None" "query wh = None" "fetch_pandas_all wh = Inr df"
      "cur_close wh = None" "con_close wh = None"
    unfolding fetch_returned_iff by simp_all
  show ?thesis
  proof (cases "empty df")
    case True
    with m w show ?thesis by simp
  next
    case False
    show ?thesis
    proof (cases "df_check now df")
      case (Inl e)
      have "\<not> (\<exists>y u mx mn. yesterday_str now = Inr y \<and> unique_values df = Inr u \<and>
                ratio_max_min df = Inr (mx, mn))"
        using Inl df_check_returns by fastforce
      with m False Inl w show ?thesis by auto
    next
      case (Inr v)
      then obtain y u mx mn where r: "yesterday_str now = Inr y" "unique_values df = Inr u"
          "ratio_max_min df = Inr (mx, mn)" and v: "v = verdict_of y u (shape1 df) mx mn"
        by (rule df_check_returned)
      from m False Inr have "exit_code (main wh now) = (if flag v then 1 else 0)" by simp
      with w False r v show ?thesis by (auto simp: verdict_of_simps)
    qed
  qed
qed

theorem exit_code_zero_iff_witness:
  "exit_code (main (delivering df_good) now0) = 0 \<and>
   connect (delivering df_good) = None \<and> cursor (delivering df_good) = None \<and>
   use_role (delivering df_good) = None \<and> use_warehouse (delivering df_good) = None \<and>
   query (delivering df_good) = None \<and>
   cur_close (delivering df_good) = None \<and> con_close (delivering df_good) = None \<and>
   (\<exists>df y u mx mn.
      fetch_pandas_all (delivering df_good) = Inr df \<and> \<not> empty df \<and>
      yesterday_str now0 = Inr y \<and> unique_values df = Inr u \<and>
      ratio_max_min df = Inr (mx, mn) \<and>
      u = y \<and> shape1 df = 16 \<and> \<not> out_of_range mx mn) \<and>
   connect wh_connect_error \<noteq> None \<and> exit_code (main wh_connect_error now0) = 1 \<and>
   query wh_query_error \<noteq> None \<and> exit_code (main wh_query_error now0) = 1"
proof -
  have z: "exit_code (main (delivering df_good) now0) = 0"
    using main_returned [OF outcome_delivering, of df_good now0] not_empty_good
    by (simp add: df_check_good verdict_pass_def)
  have c: "connect wh_connect_error \<noteq> None" by (simp add: wh_connect_error_def)
  have q: "query wh_query_error \<noteq> None" by (simp add: wh_query_error_def)
  from exit_code_zero_iff [of "delivering df_good" now0] z
    exit_code_zero_iff [of wh_connect_error now0] c
    exit_code_zero_iff [of wh_query_error now0] q
  show ?thesis by blast
qed

subsection \<open>C2: a table that passes\<close>

text \<open>
  C2. When the first value of the \<open>DATE\<close> column formats to the same string as yesterday
  (the clock's date minus one day), the table has 16 columns, and the maximum and the
  minimum of \<open>ROW_EVENT_RATIO\<close> are both 1.0, the validator returns \<open>flag = False\<close> with
  an empty list of issues, and prints that all checks passed.
\<close>

theorem df_check_passes:
  assumes "minus_one_day now = Inr yd"
    and "getitem df ''DATE'' = Inr (Series (Object (PyDate d # rest)))"
    and "strftime d = strftime yd"
    and "shape1 df = 16"
    and "getitem df ''ROW_EVENT_RATIO'' = Inr (Series (Float64 fs))"
    and "nanmax fs = Some 1" and "nanmin fs = Some 1"
  shows "df_check now df = Inr \<lparr>flag = False, issues = [], printed = [AllPassed]\<rparr>"
proof -
  from assms(1) have y: "yesterday_str now = Inr (strftime yd)" by (simp add: yesterday_str_def)
  from assms(2,3) have u: "unique_values df = Inr (strftime yd)" by (simp add: unique_values_first)
  from assms(5,6,7) have r: "ratio_max_min df = Inr (Some 1, Some 1)"
    by (simp add: ratio_max_min_float)
  from df_check_returns [OF y u r] assms(4) out_of_range_one show ?thesis
    by (simp add: verdict_of_def)
qed

theorem df_check_passes_witness:
  "minus_one_day now0 = Inr yesterday0 \<and>
   getitem df_good ''DATE'' = Inr (Series (Object (PyDate feb29 # [PyDate feb29]))) \<and>
   strftime feb29 = strftime yesterday0 \<and>
   shape1 df_good = 16 \<and>
   getitem df_good ''ROW_EVENT_RATIO'' = Inr (Series (Float64 [Some 1, Some 1])) \<and>
   nanmax [Some 1, Some 1] = Some 1 \<and> nanmin [Some 1, Some 1] = Some 1 \<and>
   df_check now0 df_good = Inr \<lparr>flag = False, issues = [], printed = [AllPassed]\<rparr>"
proof -
  have s: "strftime feb29 = strftime yesterday0"
    by (simp add: strftime_feb29 strftime_yesterday0)
  from df_check_passes [OF minus_one_day_now0 getitem_good_DATE s shape1_good
      getitem_good_RATIO nanmax_ones nanmin_ones]
  show ?thesis
    using minus_one_day_now0 getitem_good_DATE s shape1_good getitem_good_RATIO
      nanmax_ones nanmin_ones
    by blast
qed

subsection \<open>C3: every failing check is reported\<close>

text \<open>
  C3, as stated, promises a returned issue list with every failing check on every
  non-empty table. On the table \<open>df_late_no_ratio\<close> the date check fails and the
  column count is 15, yet line 95 raises \<^verbatim>\<open>KeyError\<close> before anything is reported: the
  validator returns no list, and the run prints the unexpected-error line only.
\<close>

theorem df_check_issue_lost_counterexample:
  "\<not> empty df_late_no_ratio \<and>
   yesterday_str now0 = Inr ''2024-02-29'' \<and>
   unique_values df_late_no_ratio = Inr ''2024-02-27'' \<and>
   shape1 df_late_no_ratio = 15 \<and>
   df_check now0 df_late_no_ratio = Inl (KeyError ''ROW_EVENT_RATIO'') \<and>
   stdout (main (delivering df_late_no_ratio) now0) =
     [Connecting, Performing, UnexpectedError (KeyError ''ROW_EVENT_RATIO'')]"
  by (simp add: not_empty_late yesterday_str_now0 unique_values_late shape1_late
      df_check_late main_raised [OF not_empty_late df_check_late])

text \<open>
  C3, amended. Whenever the validator can read what it needs (yesterday, the first
  date, the maximum and minimum ratio) it returns a verdict whose issue list is the
  date issue if the date check fails, followed by the column-count issue if that check
  fails, followed by the ratio issue if that check fails: each check contributes on its
  own, whatever the others found. The flag is set exactly when the list is not empty,
  and the list is what is printed.
\<close>

theorem df_check_collects_all_issues:
  assumes "yesterday_str now = Inr y" and "unique_values df = Inr u"
    and "ratio_max_min df = Inr (mx, mn)"
  shows "\<exists>v. df_check now df = Inr v \<and>
     issues v = (if u \<noteq> y then [DateIssue y u] else []) @
                (if shape1 df \<noteq> 16 then [ColumnCountIssue (shape1 df)] else []) @
                (if out_of_range mx mn then [RatioIssue mn mx] else []) \<and>
     flag v = (issues v \<noteq> []) \<and>
     printed v = (if issues v = [] then [AllPassed]
                  else ChecksFailed # map IssueLine (issues v))"
  using df_check_returns [OF assms] by (simp add: verdict_of_def Let_def)

theorem df_check_collects_all_issues_witness:
  "yesterday_str now0 = Inr ''2024-02-29'' \<and>
   unique_values df_bad = Inr ''2024-02-27'' \<and>
   ratio_max_min df_bad = Inr (Some float_1_00002, Some 1) \<and>
   (\<exists>v. df_check now0 df_bad = Inr v \<and>
      issues v = [DateIssue ''2024-02-29'' ''2024-02-27'', ColumnCountIssue 15,
                  RatioIssue (Some 1) (Some float_1_00002)] \<and>
      flag v = (issues v \<noteq> []) \<and>
      printed v = (if issues v = [] then [AllPassed]
                   else ChecksFailed # map IssueLine (issues v)))"
  using df_check_collects_all_issues
      [OF yesterday_str_now0 unique_values_bad ratio_max_min_bad]
    yesterday_str_now0 unique_values_bad ratio_max_min_bad out_of_range_bad
  by (simp add: shape1_bad)

subsection \<open>C4: an empty result\<close>

text \<open>
  C4. When the fetcher returns a table with no rows, the run prints that no data was
  retrieved and nothing else after the opening line, and exits with 1. No check is
  evaluated: nothing of the validator is printed, and the run is the same for every
  clock.
\<close>

theorem empty_result_reported:
  assumes "outcome (get_snowflake_data wh) = Returned df" and "index_len df = 0"
  shows "stdout (main wh now) = [Connecting, NoData] \<and> exit_code (main wh now) = 1 \<and>
         main wh now' = main wh now"
  using main_returned [OF assms(1)] assms(2) by (simp add: empty_def)

theorem empty_result_reported_witness:
  "outcome (get_snowflake_data (delivering df_no_rows)) = Returned df_no_rows \<and>
   index_len df_no_rows = 0 \<and>
   stdout (main (delivering df_no_rows) now0) = [Connecting, NoData] \<and>
   exit_code (main (delivering df_no_rows) now0) = 1 \<and>
   main (delivering df_no_rows) now1 = main (delivering df_no_rows) now0"
proof -
  have z: "index_len df_no_rows = 0" by (simp add: df_no_rows_def)
  from empty_result_reported [OF outcome_delivering z, of now0 now1] outcome_delivering z
  show ?thesis by blast
qed

subsection \<open>C5: the ratio bound\<close>

text \<open>
  C5, as stated, has the ratio check fail on every non-empty table whose maximum ratio
  exceeds \<^verbatim>\<open>1.00001\<close>. The table \<open>df_no_date\<close> has a ratio of \<^verbatim>\<open>1.00002\<close>, but line 83
  raises \<^verbatim>\<open>KeyError\<close> on the missing \<open>DATE\<close> column before the ratio is read: no ratio
  issue is reported, the run prints the unexpected-error line only.
\<close>

theorem ratio_check_not_reached_counterexample:
  "\<not> empty df_no_date \<and>
   getitem df_no_date ''ROW_EVENT_RATIO'' =
     Inr (Series (Float64 [Some 1, Some float_1_00002])) \<and>
   nanmax [Some 1, Some float_1_00002] = Some float_1_00002 \<and>
   upper_bound < float_1_00002 \<and>
   df_check now0 df_no_date = Inl (KeyError ''DATE'') \<and>
   stdout (main (delivering df_no_date) now0) =
     [Connecting, Performing, UnexpectedError (KeyError ''DATE'')]"
proof -
  have "upper_bound < float_1_00002"
    by (simp add: upper_bound_def float_1_00002_def)
  then show ?thesis
    by (simp add: not_empty_no_date getitem_no_date_RATIO nanmax_bad df_check_no_date
        main_raised [OF not_empty_no_date df_check_no_date])
qed

text \<open>
  C5, amended. On a table on which yesterday and the first date can be read and whose
  \<open>ROW_EVENT_RATIO\<close> is a float column, the validator returns a verdict, and it reports
  a ratio issue exactly when the column has a value other than NaN and the maximum of
  these values exceeds the float \<^verbatim>\<open>1.00001\<close> or their minimum is below the float
  \<^verbatim>\<open>0.99999\<close>; the issue carries the minimum and the maximum. The two bounds are the
  doubles nearest to the decimals: multiples of \<open>2^-52\<close> and \<open>2^-53\<close> within half a
  unit in the last place of \<open>1.00001\<close> and \<open>0.99999\<close>. A maximum and a minimum equal
  to the bounds pass, a maximum of \<^verbatim>\<open>1.000005\<close> passes, a maximum of \<^verbatim>\<open>1.00002\<close> fails,
  and so does a minimum of \<^verbatim>\<open>0.99998\<close>.
\<close>

theorem ratio_issue_iff:
  assumes "yesterday_str now = Inr y" and "unique_values df = Inr u"
    and "getitem df ''ROW_EVENT_RATIO'' = Inr (Series (Float64 fs))"
  shows "(\<exists>v. df_check now df = Inr v \<and>
            (\<forall>mn mx. RatioIssue mn mx \<in> set (issues v) \<longleftrightarrow>
               mn = nanmin fs \<and> mx = nanmax fs \<and> {x. Some x \<in> set fs} \<noteq> {} \<and>
               (upper_bound < Max {x. Some x \<in> set fs} \<or>
                Min {x. Some x \<in> set fs} < lower_bound))) \<and>
         upper_bound * 2 ^ 51 = 2251822331683385 \<and>
         \<bar>upper_bound - 1.00001\<bar> \<le> 1 / 2 ^ 53 \<and>
         lower_bound * 2 ^ 53 = 9007109182748445 \<and>
         \<bar>lower_bound - 0.99999\<bar> \<le> 1 / 2 ^ 54 \<and>
         \<not> out_of_range (Some upper_bound) (Some lower_bound) \<and>
         \<not> out_of_range (Some float_1_000005) (Some 1) \<and>
         out_of_range (Some float_1_00002) (Some 1) \<and>
         out_of_range (Some 1) (Some float_0_99998)"
proof -
  from assms(3) have r: "ratio_max_min df = Inr (nanmax fs, nanmin fs)"
    by (rule ratio_max_min_float)
  note c = df_check_returns [OF assms(1,2) r]
  have o: "out_of_range (nanmax fs) (nanmin fs) \<longleftrightarrow>
        {x. Some x \<in> set fs} \<noteq> {} \<and>
        (upper_bound < Max {x. Some x \<in> set fs} \<or> Min {x. Some x \<in> set fs} < lower_bound)"
    by (simp add: out_of_range_def float_gt_def float_lt_def nanmax_Max nanmin_Min)
  have "\<forall>mn mx. RatioIssue mn mx \<in> set (issues (verdict_of y u (shape1 df) (nanmax fs) (nanmin fs))) \<longleftrightarrow>
          mn = nanmin fs \<and> mx = nanmax fs \<and> out_of_range (nanmax fs) (nanmin fs)"
    by (auto simp: verdict_of_simps)
  with c o have 1: "\<exists>v. df_check now df = Inr v \<and>
            (\<forall>mn mx. RatioIssue mn mx \<in> set (issues v) \<longleftrightarrow>
               mn = nanmin fs \<and> mx = nanmax fs \<and> {x. Some x \<in> set fs} \<noteq> {} \<and>
               (upper_bound < Max {x. Some x \<in> set fs} \<or>
                Min {x. Some x \<in> set fs} < lower_bound))"
    by simp
  have 2: "upper_bound * 2 ^ 51 = 2251822331683385 \<and> \<bar>upper_bound - 1.00001\<bar> \<le> 1 / 2 ^ 53"
    by (simp add: upper_bound_def)
  have 3: "lower_bound * 2 ^ 53 = 9007109182748445 \<and> \<bar>lower_bound - 0.99999\<bar> \<le> 1 / 2 ^ 54"
    by (simp add: lower_bound_def)
  have 4: "\<not> out_of_range (Some upper_bound) (Some lower_bound)"
    by (simp add: out_of_range_def float_gt_def float_lt_def)
  have 5: "\<not> out_of_range (Some float_1_000005) (Some 1)"
    by (simp add: out_of_range_def float_gt_def float_lt_def upper_bound_def lower_bound_def
        float_1_000005_def)
  have 6: "out_of_range (Some float_1_00002) (Some 1)"
    by (rule out_of_range_bad)
  have 7: "out_of_range (Some 1) (Some float_0_99998)"
    by (simp add: out_of_range_def float_gt_def float_lt_def upper_bound_def lower_bound_def
        float_0_99998_def)
  from 1 2 3 4 5 6 7 show ?thesis by blast
qed

theorem ratio_issue_iff_witness:
  "yesterday_str now0 = Inr ''2024-02-29'' \<and>
   unique_values df_bad = Inr ''2024-02-27'' \<and>
   getitem df_bad ''ROW_EVENT_RATIO'' = Inr (Series (Float64 [Some 1, Some float_1_00002])) \<and>
   (\<exists>v. df_check now0 df_bad = Inr v \<and>
      RatioIssue (Some 1) (Some float_1_00002) \<in> set (issues v)) \<and>
   upper_bound < Max {x. Some x \<in> set [Some 1, Some float_1_00002]}"
proof -
  have m: "{x. Some x \<in> set [Some 1, Some float_1_00002]} = {1, float_1_00002}" by auto
  have u: "upper_bound < Max {x. Some x \<in> set [Some 1, Some float_1_00002]}"
    unfolding m by (simp add: upper_bound_def float_1_00002_def)
  have n: "{x. Some x \<in> set [Some 1, Some float_1_00002]} \<noteq> {}" unfolding m by simp
  from ratio_issue_iff [OF yesterday_str_now0 unique_values_bad getitem_bad_RATIO]
  obtain v where v: "df_check now0 df_bad = Inr v"
    and i: "\<forall>mn mx. RatioIssue mn mx \<in> set (issues v) \<longleftrightarrow>
               mn = nanmin [Some 1, Some float_1_00002] \<and>
               mx = nanmax [Some 1, Some float_1_00002] \<and>
               {x. Some x \<in> set [Some 1, Some float_1_00002]} \<noteq> {} \<and>
               (upper_bound < Max {x. Some x \<in> set [Some 1, Some float_1_00002]} \<or>
                Min {x. Some x \<in> set [Some 1, Some float_1_00002]} < lower_bound)"
    by blast
  from i u n have "RatioIssue (Some 1) (Some float_1_00002) \<in> set (issues v)"
    by (simp add: nanmax_bad nanmin_bad)
  with v yesterday_str_now0 unique_values_bad getitem_bad_RATIO u show ?thesis by blast
qed

subsection \<open>C6: the column count\<close>

text \<open>
  C6, as stated, has every non-empty table of 15 columns produce a column-count issue,
  whatever its columns are called. The table \<open>df_no_date\<close> has 15 columns, none of them
  called \<open>DATE\<close>: line 83 raises \<^verbatim>\<open>KeyError\<close> before line 90 counts the columns, no
  issue is reported, and the run prints the unexpected-error line only.
\<close>

theorem column_count_not_reached_counterexample:
  "\<not> empty df_no_date \<and>
   length (columns df_no_date) = 15 \<and>
   df_check now0 df_no_date = Inl (KeyError ''DATE'') \<and>
   stdout (main (delivering df_no_date) now0) =
     [Connecting, Performing, UnexpectedError (KeyError ''DATE'')] \<and>
   exit_code (main (delivering df_no_date) now0) = 1"
  by (simp add: not_empty_no_date length_no_date df_check_no_date
      main_raised [OF not_empty_no_date df_check_no_date])

text \<open>
  C6, amended. On a table on which the validator can read yesterday, the first date
  and the extremes of the ratio, it returns a verdict, and the verdict has a
  column-count issue exactly when the number of columns is not 16; the issue carries
  that number, and nothing else about the columns enters. So such a table of 15 or of
  17 columns gets the issue.
\<close>

theorem column_count_issue_iff:
  assumes "yesterday_str now = Inr y" and "unique_values df = Inr u"
    and "ratio_max_min df = Inr (mx, mn)"
  shows "\<exists>v. df_check now df = Inr v \<and>
           (\<forall>n. ColumnCountIssue n \<in> set (issues v) \<longleftrightarrow>
                  n = length (columns df) \<and> length (columns df) \<noteq> 16)"
proof -
  have "\<forall>n. ColumnCountIssue n \<in> set (issues (verdict_of y u (shape1 df) mx mn)) \<longleftrightarrow>
          n = length (columns df) \<and> length (columns df) \<noteq> 16"
    by (auto simp: verdict_of_simps shape1_def)
  with df_check_returns [OF assms] show ?thesis by simp
qed

theorem column_count_issue_iff_witness:
  "yesterday_str now0 = Inr ''2024-02-29'' \<and>
   unique_values df_bad = Inr ''2024-02-27'' \<and>
   ratio_max_min df_bad = Inr (Some float_1_00002, Some 1) \<and>
   length (columns df_bad) = 15 \<and>
   (\<exists>v. df_check now0 df_bad = Inr v \<and> ColumnCountIssue 15 \<in> set (issues v))"
proof -
  have n: "length (columns df_bad) = 15" using shape1_bad by (simp add: shape1_def)
  from column_count_issue_iff [OF yesterday_str_now0 unique_values_bad ratio_max_min_bad]
  obtain v where v: "df_check now0 df_bad = Inr v"
    and i: "\<forall>k. ColumnCountIssue k \<in> set (issues v) \<longleftrightarrow>
                  k = length (columns df_bad) \<and> length (columns df_bad) \<noteq> 16"
    by blast
  from i n have "ColumnCountIssue 15 \<in> set (issues v)" by simp
  with v n yesterday_str_now0 unique_values_bad ratio_max_min_bad show ?thesis by blast
qed

subsection \<open>C7: the recency check reads the first date only\<close>

text \<open>
  C7. With yesterday the clock's date minus one day, and \<open>d\<close> the first value of the
  \<open>DATE\<close> column, a completed validation reports a date issue exactly when the two
  dates format to different strings, and the issue carries the two strings. The rest
  of the column does not occur in the condition.
\<close>

theorem date_issue_iff:
  assumes "minus_one_day now = Inr yd"
    and "getitem df ''DATE'' = Inr (Series (Object (PyDate d # rest)))"
    and "df_check now df = Inr v"
  shows "DateIssue a b \<in> set (issues v) \<longleftrightarrow>
           a = strftime yd \<and> b = strftime d \<and> strftime d \<noteq> strftime yd"
proof -
  from assms(3) obtain y u mx mn where y: "yesterday_str now = Inr y"
      and u: "unique_values df = Inr u" and v: "v = verdict_of y u (shape1 df) mx mn"
    by (rule df_check_returned)
  from y assms(1) have y': "y = strftime yd" by (simp add: yesterday_str_def)
  from u assms(2) have u': "u = strftime d" by (simp add: unique_values_first)
  show ?thesis unfolding v y' u' by (auto simp: verdict_of_simps)
qed

theorem date_issue_iff_witness:
  "minus_one_day now0 = Inr yesterday0 \<and>
   getitem df_bad ''DATE'' = Inr (Series (Object (PyDate feb27 # [PyDate feb27]))) \<and>
   df_check now0 df_bad = Inr verdict_bad \<and>
   strftime feb27 \<noteq> strftime yesterday0 \<and>
   DateIssue (strftime yesterday0) (strftime feb27) \<in> set (issues verdict_bad) \<and>
   minus_one_day now1 = Inr yesterday1 \<and>
   getitem df_two_dates ''DATE'' = Inr (Series (Object (PyDate feb29 # [PyDate feb27]))) \<and>
   df_check now1 df_two_dates = Inr verdict_pass \<and>
   strftime feb29 = strftime yesterday1 \<and>
   DateIssue (strftime yesterday1) (strftime feb29) \<notin> set (issues verdict_pass)"
proof -
  have d: "strftime feb27 \<noteq> strftime yesterday0"
    by (simp add: strftime_feb27 strftime_yesterday0)
  with date_issue_iff [OF minus_one_day_now0 getitem_bad_DATE df_check_bad,
      of "strftime yesterday0" "strftime feb27"]
  have i: "DateIssue (strftime yesterday0) (strftime feb27) \<in> set (issues verdict_bad)"
    by simp
  have e: "strftime feb29 = strftime yesterday1"
    by (simp add: strftime_feb29 strftime_yesterday1)
  with date_issue_iff [OF minus_one_day_now1 getitem_two_dates_DATE df_check_two_dates,
      of "strftime yesterday1" "strftime feb29"]
  have n: "DateIssue (strftime yesterday1) (strftime feb29) \<notin> set (issues verdict_pass)"
    by simp
  from minus_one_day_now0 getitem_bad_DATE df_check_bad d i
    minus_one_day_now1 getitem_two_dates_DATE df_check_two_dates e n
  show ?thesis by blast
qed

subsection \<open>C8: the session on the error path\<close>

text \<open>
  C8. The claim is that connection and cursor are closed on every exit path. At a
  warehouse that accepts the session and rejects the data query, the run exits with 1
  through the handler of lines 64 to 66 with the connection and the cursor both still
  open: only the path of lines 59 and 60 closes them.
\<close>

theorem query_error_leaves_session_open:
  "outcome (get_snowflake_data wh_query_error) = SystemExit 1 \<and>
   after (get_snowflake_data wh_query_error) = \<lparr>con_open = True, cur_open = True\<rparr> \<and>
   after (get_snowflake_data (delivering df_good)) = \<lparr>con_open = False, cur_open = False\<rparr>"
  by (simp add: get_snowflake_data_def wh_query_error_def delivering_def on_exception_def)

subsection \<open>C9: the run is a function of yesterday and the fetched table\<close>

text \<open>
  C9. Two runs whose clocks give the same yesterday string and whose fetchers return
  the same table end alike: the validator gives the same result (flag, issues, printed
  lines, or the same exception), and the runs have the same output and exit code.
\<close>

theorem run_deterministic:
  assumes "yesterday_str now = yesterday_str now'"
    and "outcome (get_snowflake_data wh) = Returned df"
    and "outcome (get_snowflake_data wh') = Returned df"
  shows "df_check now df = df_check now' df \<and> main wh now = main wh' now'"
proof -
  have d: "df_check now df = df_check now' df" using assms(1) by (simp add: df_check_def)
  have "main wh now = main wh' now'"
    unfolding main_returned [OF assms(2)] main_returned [OF assms(3)] d ..
  with d show ?thesis ..
qed

theorem run_deterministic_witness:
  "yesterday_str now0 = yesterday_str now1 \<and>
   outcome (get_snowflake_data (delivering df_bad)) = Returned df_bad \<and>
   df_check now0 df_bad = df_check now1 df_bad \<and>
   main (delivering df_bad) now0 = main (delivering df_bad) now1"
proof -
  have y: "yesterday_str now0 = yesterday_str now1"
    by (simp add: yesterday_str_now0 yesterday_str_now1)
  from run_deterministic [OF y outcome_delivering outcome_delivering] y outcome_delivering
  show ?thesis by blast
qed

subsection \<open>C10: what the validator cannot read\<close>

text \<open>
  C10. On a non-empty table that has no \<open>DATE\<close> column, or no \<open>ROW_EVENT_RATIO\<close>
  column, or whose \<open>DATE\<close> column does not begin with a date, the validator raises
  an exception and returns no verdict; the run then prints the unexpected-error line
  with that exception, no line of the validator, and exits with 1.
\<close>

theorem df_check_raises:
  assumes "\<not> empty df"
    and "''DATE'' \<notin> fst ` set (columns df) \<or>
         ''ROW_EVENT_RATIO'' \<notin> fst ` set (columns df) \<or>
         (\<exists>c. getitem df ''DATE'' = Inr (Series c) \<and> \<not> first_is_date c)"
    and "outcome (get_snowflake_data wh) = Returned df"
  shows "\<exists>e. df_check now df = Inl e \<and>
           stdout (main wh now) = [Connecting, Performing, UnexpectedError e] \<and>
           exit_code (main wh now) = 1"
proof -
  have "unique_values df = Inl (KeyError ''DATE'') \<or>
        ratio_max_min df = Inl (KeyError ''ROW_EVENT_RATIO'') \<or>
        (\<exists>e. unique_values df = Inl e)"
    using assms(2) not_date_raises
    by (auto simp: unique_values_def ratio_max_min_def getitem_KeyError)
  then have "\<exists>e. df_check now df = Inl e"
    by (auto simp: df_check_def Let_def split: sum.splits prod.splits)
  then obtain e where e: "df_check now df = Inl e" ..
  with main_returned [OF assms(3), of now] assms(1) show ?thesis by simp
qed

theorem df_check_raises_witness:
  "\<not> empty df_no_ratio \<and>
   ''ROW_EVENT_RATIO'' \<notin> fst ` set (columns df_no_ratio) \<and>
   outcome (get_snowflake_data (delivering df_no_ratio)) = Returned df_no_ratio \<and>
   (\<exists>e. df_check now0 df_no_ratio = Inl e \<and>
      stdout (main (delivering df_no_ratio) now0) =
        [Connecting, Performing, UnexpectedError e] \<and>
      exit_code (main (delivering df_no_ratio) now0) = 1)"
proof -
  have h: "''DATE'' \<notin> fst ` set (columns df_no_ratio) \<or>
         ''ROW_EVENT_RATIO'' \<notin> fst ` set (columns df_no_ratio) \<or>
         (\<exists>c. getitem df_no_ratio ''DATE'' = Inr (Series c) \<and> \<not> first_is_date c)"
    using no_ratio_column by blast
  from df_check_raises [OF not_empty_no_ratio h outcome_delivering, of now0]
    not_empty_no_ratio no_ratio_column outcome_delivering
  show ?thesis by blast
qed

end
